theory Spec2Isabelle
  imports Main
begin

section \<open>JavaScript values\<close>

text \<open>
  Manifest data is JSON read from disk and kept in the host's state, so a field holds
  whatever the author wrote. The values the sources inspect are modelled by \<open>jsval\<close>;
  an object is the list of its own enumerable properties in enumeration order
  (keys are distinct, as they are in a JavaScript object).
\<close>

datatype jsval =
    JUndefined
  | JNull
  | JBool bool
  | JNum int
  | JStr string
  | JArr "jsval list"
  | JObj "(string \<times> jsval) list"

text \<open>\<open>!!v\<close>: the falsy values are undefined, null, false, 0 and the empty string.\<close>

fun truthy :: "jsval \<Rightarrow> bool" where
  "truthy JUndefined = False"
| "truthy JNull = False"
| "truthy (JBool b) = b"
| "truthy (JNum n) = (n \<noteq> 0)"
| "truthy (JStr s) = (s \<noteq> [])"
| "truthy (JArr xs) = True"
| "truthy (JObj kvs) = True"

text \<open>\<open>a || b\<close> yields \<open>a\<close> itself when it is truthy, otherwise \<open>b\<close>.\<close>

definition js_or :: "jsval \<Rightarrow> jsval \<Rightarrow> jsval" where
  "js_or a b = (if truthy a then a else b)"

text \<open>
  \<open>String.prototype.toLowerCase\<close> folds every cased letter of Unicode. It is not defined
  here: each function that calls it takes it as the parameter \<open>lc\<close>, or reads it from
  its environment, and what is proved of such a function holds for every case folding.
\<close>

text \<open>
  \<open>obj[key]\<close> on an object's own properties: a missing key reads as undefined. It is
  used for the keys \<open>UniqueID\<close>, \<open>MinimumVersion\<close>, \<open>isRequired\<close>, \<open>Dependencies\<close>
  and \<open>ContentPackFor\<close> and for keys that \<open>Object.keys\<close> returned; none of them names
  a property that an object inherits.
\<close>

definition get_prop :: "(string \<times> jsval) list \<Rightarrow> string \<Rightarrow> jsval" where
  "get_prop kvs key = (case map_of kvs key of None \<Rightarrow> JUndefined | Some v \<Rightarrow> v)"

section \<open>common.ts\<close>

definition GAME_ID :: string where
  "GAME_ID = ''stardewvalley''"

text \<open>
  \<open>getManifestValue(manifest, key)\<close>: undefined for a falsy manifest; the value under
  the exact key when that value is truthy; otherwise the value under the first key that
  equals \<open>key\<close> ignoring case; otherwise undefined (after a warning in the log).
  A truthy value that is not an object has none of the keys looked up here.
\<close>

definition getManifestValue :: "(string \<Rightarrow> string) \<Rightarrow> jsval \<Rightarrow> string \<Rightarrow> jsval" where
  "getManifestValue lc manifest key =
     (case manifest of
        JObj kvs \<Rightarrow>
          (if truthy (get_prop kvs key) then get_prop kvs key
           else (case find (\<lambda>k. lc k = lc key) (map fst kvs) of
                   Some keyMatch \<Rightarrow> (if keyMatch \<noteq> [] then get_prop kvs keyMatch else JUndefined)
                 | None \<Rightarrow> JUndefined))
      | _ \<Rightarrow> JUndefined)"

section \<open>SMAPI\_API.ts: normaliseDependencies\<close>

text \<open>
  The result is undefined when no truthy \<open>UniqueID\<close> is found, and otherwise a new object
  \<open>{ UniqueID, isRequired }\<close> to which \<open>MinimumVersion\<close> is assigned under the guard
  \<open>if (!MinimumVersion)\<close>. The input is only read.
\<close>

definition normaliseDependencies :: "(string \<Rightarrow> string) \<Rightarrow> jsval \<Rightarrow> jsval" where
  "normaliseDependencies lc input =
     (let UniqueID = getManifestValue lc input ''UniqueID'';
          MinimumVersion = getManifestValue lc input ''MinimumVersion'';
          isRequired = js_or (getManifestValue lc input ''isRequired'') (JBool False)
      in if \<not> truthy UniqueID then JUndefined
         else JObj ([(''UniqueID'', UniqueID), (''isRequired'', isRequired)]
                    @ (if \<not> truthy MinimumVersion then [(''MinimumVersion'', MinimumVersion)] else [])))"

section \<open>Types of the extension and of the host\<close>

text \<open>
  The extension's types (\<open>ISMAPIManifestBase\<close>, \<open>SMAPIManifestClass\<close>, \<open>IAPIMod\<close>,
  \<open>IAPIModIdentity\<close>, \<open>IAPIPostRequest\<close>, \<open>IModRulePlusType\<close>) are the declarations
  imported from types/smapi-types (found in src/src/installers/root-folder.ts, lines 301
  to 506); \<open>IMod\<close> and \<open>IModRule\<close> are the host's. Only the fields that the modelled
  functions read or write are kept.
\<close>

text \<open>
  A dependency declaration as the reconciler reads it. \<open>UniqueID\<close> and
  \<open>MinimumVersion\<close> are strings or undefined (\<open>None\<close>); \<open>isRequired\<close> is kept as the
  raw value, since the code distinguishes \<open>=== true\<close> from truthiness.
\<close>

record dependency =
  UniqueID :: "string option"
  isRequired :: jsval
  MinimumVersion :: "string option"

datatype content_pack = ContentPack (cp_UniqueID: "string option")

text \<open>
  A stored manifest (the output of \<open>SMAPIManifestClass.toJSON\<close>). \<open>Dependencies\<close> is a
  reference to an array object in the store of arrays, or undefined.
\<close>

record manifest =
  Version :: "string option"
  Dependencies :: "nat option"
  ContentPackFor :: "content_pack option"

datatype rule_type = requires | recommends

record repo =
  repository :: string
  gameId :: string
  repo_modId :: "string option"
  repo_fileId :: "string option"

text \<open>\<open>IModReferencePlus\<close>: every field is optional; \<open>None\<close> is undefined.\<close>

record reference =
  ref_id :: "string option"
  versionMatch :: "string option"
  description :: "string option"
  idHint :: "string option"
  instructions :: "string option"
  version :: "string option"
  fileExpression :: "string option"
  ref_repo :: "repo option"
  ref_archiveId :: "string option"

record downloadHint =
  mode :: string
  url :: string

text \<open>A reference with no field set.\<close>

definition empty_reference :: reference where
  "empty_reference =
     \<lparr> ref_id = None, versionMatch = None, description = None, idHint = None,
       instructions = None, version = None, fileExpression = None, ref_repo = None,
       ref_archiveId = None \<rparr>"

text \<open>\<open>`https://nexusmods.com/${GAME_ID}/mods/`\<close>\<close>

definition default_url :: string where
  "default_url = ''https://nexusmods.com/'' @ GAME_ID @ ''/mods/''"

text \<open>\<open>IModRulePlusType\<close>; \<open>extra\<close> holds the value of \<open>extra.required\<close>.\<close>

record rule =
  type :: "rule_type option"
  reference :: "reference option"
  downloadHint :: "downloadHint option"
  extra :: "jsval option"

record smapi_id =
  smapi_id_id :: string

record mod_datum =
  datum_id :: string
  datum_version :: "string option"

text \<open>
  \<open>modId\<close> and \<open>fileId\<close> are held as they print in a template literal; a falsy value
  is \<open>None\<close> or the empty string.
\<close>

record attributes =
  smapiManifests :: "(string \<times> manifest) list option"
  smapiIDs :: "smapi_id list option"
  modData :: "mod_datum list option"
  modId :: "string option"
  fileId :: "string option"
  source :: "string option"

record IMod =
  mod_id :: string
  archiveId :: "string option"
  mod_attributes :: "attributes option"
  rules :: "rule list option"

text \<open>\<open>id\<close> is kept as the raw value: \<open>getModDependencies\<close> fills it from a normalised object.\<close>

record IAPIModIdentity =
  identity_id :: jsval
  installedVersion :: "string option"
  updateKeys :: "string list option"

record IAPIPostRequest =
  req_mods :: "IAPIModIdentity list"
  apiVersion :: string
  gameVersion :: string
  platform :: string
  includeExtendedMetadata :: "bool option"

text \<open>
  An entry of the catalog's response. The body of an HTTP response is not checked against
  \<open>IAPIPostResponse\<close>, so an entry may lack its \<open>id\<close> and the body may not be an array.
\<close>

record IAPIMod =
  entry_id :: "string option"
  metadata_name :: "string option"
  metadata_main_url :: "string option"

datatype response_data = NotAnArray | Mods "IAPIMod list"

datatype error =
    GameDetailsMissing
  | GameVersionMissing
  | HostRejected
  | TransportError
  | TypeError

datatype action =
    removeModRule string string rule
  | addModRule string string rule

text \<open>The effects a call leaves behind, in order.\<close>

datatype event =
    Post string IAPIPostRequest
  | Log string string
  | BatchDispatch "action list"

section \<open>SMAPI\_API.ts: the catalog client\<close>

text \<open>
  What the client asks of its surroundings: whether the host knows the game, the awaited
  result of \<open>game.getInstalledVersion?.(discovery)\<close> (a rejection, undefined or a
  string), \<open>process.platform\<close>, the answer of the HTTP POST (a rejection or the
  response body \<open>res.data\<close>), the host's \<open>util.renderModName\<close> and the runtime's
  \<open>String.prototype.toLowerCase\<close>.
\<close>

record env =
  game_defined :: bool
  getInstalledVersion :: "error + string option"
  process_platform :: string
  post :: "string \<Rightarrow> IAPIPostRequest \<Rightarrow> error + response_data"
  renderModName :: "IMod \<Rightarrow> string"
  toLowerCase :: "string \<Rightarrow> string"

definition SMAPI_API_VERSION :: string where
  "SMAPI_API_VERSION = ''v3.0''"

definition api_url :: string where
  "api_url = ''https://smapi.io/api/'' @ SMAPI_API_VERSION @ ''/mods''"

text \<open>\<open>s.split('.')\<close> and \<open>parts.join('.')\<close>.\<close>

fun split_dot :: "string \<Rightarrow> string list" where
  "split_dot [] = [[]]"
| "split_dot (c # cs) =
     (if c = CHR ''.'' then [] # split_dot cs
      else (case split_dot cs of
              [] \<Rightarrow> [[c]]
            | w # ws \<Rightarrow> (c # w) # ws))"

fun join_dot :: "string list \<Rightarrow> string" where
  "join_dot [] = []"
| "join_dot [w] = w"
| "join_dot (w # v # ws) = w @ ''.'' @ join_dot (v # ws)"

definition getGameVersion :: "env \<Rightarrow> error + string" where
  "getGameVersion e =
     (if \<not> game_defined e then Inl GameDetailsMissing
      else (case getInstalledVersion e of
              Inl err \<Rightarrow> Inl err
            | Inr None \<Rightarrow> Inl GameVersionMissing
            | Inr (Some gv) \<Rightarrow>
                if gv = [] then Inl GameVersionMissing
                else Inr (join_dot (take 3 (split_dot gv)))))"

definition platform_of :: "string \<Rightarrow> string" where
  "platform_of p =
     (if p = ''win32'' then ''Windows'' else if p = ''linux'' then ''Linux'' else ''Mac'')"

text \<open>
  The body of \<open>sendQuery\<close> inside its \<open>try\<close>: the outcome (an exception or the response
  body) together with the requests posted. The two \<open>console.log\<close> calls are left out.
\<close>

definition sendQuery_try ::
  "env \<Rightarrow> IAPIModIdentity list \<Rightarrow> bool option \<Rightarrow> (error + response_data) \<times> event list" where
  "sendQuery_try e mods includeMeta =
     (case getGameVersion e of
        Inl err \<Rightarrow> (Inl err, [])
      | Inr gv \<Rightarrow>
          (let data = \<lparr> req_mods = mods, apiVersion = ''3.0'', gameVersion = gv,
                          platform = platform_of (process_platform e),
                          includeExtendedMetadata = includeMeta \<rparr>
           in (post e api_url data, [Post api_url data])))"

text \<open>
  \<open>sendQuery\<close>: the \<open>catch\<close> logs the error and returns \<open>[]\<close>. The result is a sum so
  that an exception leaving the function would be a value \<open>Inl\<close>.
\<close>

definition sendQuery ::
  "env \<Rightarrow> IAPIModIdentity list \<Rightarrow> bool option \<Rightarrow> (error + response_data) \<times> event list" where
  "sendQuery e mods includeMeta =
     (case sendQuery_try e mods includeMeta of
        (Inr data, evs) \<Rightarrow> (Inr data, evs)
      | (Inl err, evs) \<Rightarrow>
          (Inr (Mods []), evs @ [Log ''error'' ''Error fetching data from the SMAPI API'']))"

text \<open>
  \<open>fetchModInfo(includeMeta, modsToCheck)\<close>, with \<open>modsToCheck\<close> already defaulted to the
  installed mods: the identities of every mod's \<open>modData\<close>, and a query only when there
  is at least one.
\<close>

definition mod_identities :: "IMod \<Rightarrow> IAPIModIdentity list" where
  "mod_identities cur =
     (case mod_attributes cur of
        None \<Rightarrow> []
      | Some a \<Rightarrow>
          (case modData a of
             None \<Rightarrow> []
           | Some ids \<Rightarrow>
               map (\<lambda>m. \<lparr> identity_id = JStr (datum_id m),
                           installedVersion = datum_version m,
                           updateKeys =
                             Some (case modId a of
                                     None \<Rightarrow> []
                                   | Some i \<Rightarrow>
                                       if i \<noteq> [] \<and> source a = Some ''nexus''
                                       then [''nexus:'' @ i] else []) \<rparr>) ids))"

definition fetchModInfo ::
  "env \<Rightarrow> bool \<Rightarrow> (string \<times> IMod) list \<Rightarrow> (error + response_data) \<times> event list" where
  "fetchModInfo e includeMeta modsToCheck =
     (let mods = foldl (\<lambda>prev cur. prev @ mod_identities cur) [] (map snd modsToCheck)
      in if mods = [] then (Inr (Mods []), [])
         else sendQuery e mods (Some includeMeta))"

section \<open>SMAPI\_API.ts: getModDependencies\<close>

text \<open>
  The declarations this function works on are the results of \<open>normaliseDependencies\<close>:
  objects, or undefined for an entry with no identifier.

  \<open>dependency.UniqueID.toLowerCase()\<close> throws a TypeError unless \<open>dependency\<close> is an
  object whose \<open>UniqueID\<close> is a string.
\<close>

definition lower_UniqueID :: "(string \<Rightarrow> string) \<Rightarrow> jsval \<Rightarrow> error + string" where
  "lower_UniqueID lc dependency =
     (case dependency of
        JObj kvs \<Rightarrow>
          (case get_prop kvs ''UniqueID'' of
             JStr u \<Rightarrow> Inr (lc u)
           | _ \<Rightarrow> Inl TypeError)
      | _ \<Rightarrow> Inl TypeError)"

definition dep_prop :: "jsval \<Rightarrow> string \<Rightarrow> jsval" where
  "dep_prop d key = (case d of JObj kvs \<Rightarrow> get_prop kvs key | _ \<Rightarrow> JUndefined)"

text \<open>
  \<open>Object.values(mods).filter(m => !!m.attributes.smapiIDs)\<close>: a mod without
  \<open>attributes\<close> throws.
\<close>

fun smapi_mods :: "IMod list \<Rightarrow> error + IMod list" where
  "smapi_mods [] = Inr []"
| "smapi_mods (m # ms) =
     (case mod_attributes m of
        None \<Rightarrow> Inl TypeError
      | Some a \<Rightarrow>
          (case smapi_mods ms of
             Inl err \<Rightarrow> Inl err
           | Inr r \<Rightarrow> Inr (if smapiIDs a \<noteq> None then m # r else r)))"

definition ids_of :: "IMod \<Rightarrow> smapi_id list" where
  "ids_of m =
     (case mod_attributes m of
        None \<Rightarrow> []
      | Some a \<Rightarrow> (case smapiIDs a of None \<Rightarrow> [] | Some ids \<Rightarrow> ids))"

text \<open>
  Line 95. The inner callback runs for the first identifier of the first mod that has
  one, and there it throws unless the declaration's identifier is a string; with no
  identifier to visit, \<open>find\<close> returns undefined without calling it.
\<close>

definition matching_mod ::
  "(string \<Rightarrow> string) \<Rightarrow> IMod list \<Rightarrow> jsval \<Rightarrow> error + IMod option" where
  "matching_mod lc smapiMods dependency =
     (if concat (map ids_of smapiMods) = [] then Inr None
      else (case lower_UniqueID lc dependency of
              Inl err \<Rightarrow> Inl err
            | Inr u \<Rightarrow>
                Inr (find (\<lambda>m. find (\<lambda>d. lc (smapi_id_id d) = u) (ids_of m) \<noteq> None)
                       smapiMods)))"

definition installed_rule :: "env \<Rightarrow> IMod \<Rightarrow> jsval \<Rightarrow> rule" where
  "installed_rule e matchingMod dependency =
     (let mid = (case mod_attributes matchingMod of None \<Rightarrow> None | Some a \<Rightarrow> modId a);
          fid = (case mod_attributes matchingMod of None \<Rightarrow> None | Some a \<Rightarrow> fileId a)
      in \<lparr> type = None,
           reference = Some (empty_reference
             \<lparr> ref_id := Some (mod_id matchingMod),
               ref_repo := Some \<lparr> repository = ''nexus'', gameId = GAME_ID,
                                  repo_modId = mid, repo_fileId = fid \<rparr>,
               ref_archiveId := archiveId matchingMod,
               description := Some (renderModName e matchingMod) \<rparr>),
           downloadHint = Some \<lparr> mode = ''browse'',
             url = default_url @ (case mid of None \<Rightarrow> [] | Some i \<Rightarrow> i) \<rparr>,
           extra = Some (js_or (dep_prop dependency ''isRequired'') (JBool False)) \<rparr>)"

text \<open>
  The loop of lines 94 to 122: the rules pushed to \<open>rules\<close> and the declarations pushed
  to \<open>unfulfilled\<close>.
\<close>

fun match_pass :: "env \<Rightarrow> IMod list \<Rightarrow> jsval list \<Rightarrow> error + (rule list \<times> jsval list)" where
  "match_pass e smapiMods [] = Inr ([], [])"
| "match_pass e smapiMods (dependency # ds) =
     (case matching_mod (toLowerCase e) smapiMods dependency of
        Inl err \<Rightarrow> Inl err
      | Inr found \<Rightarrow>
          (case match_pass e smapiMods ds of
             Inl err \<Rightarrow> Inl err
           | Inr (rs, unfulfilled) \<Rightarrow>
               (case found of
                  None \<Rightarrow> Inr (rs, dependency # unfulfilled)
                | Some matchingMod \<Rightarrow>
                    Inr (installed_rule e matchingMod dependency # rs, unfulfilled))))"

text \<open>
  Line 126, \<open>unfulfilled.map(u => ({ id: u.UniqueID }))\<close>, outside the \<open>try\<close>: reading
  \<open>UniqueID\<close> of an undefined declaration throws (the array holds objects and undefined
  only).
\<close>

fun identities_of :: "jsval list \<Rightarrow> error + IAPIModIdentity list" where
  "identities_of [] = Inr []"
| "identities_of (u # us) =
     (case u of
        JObj kvs \<Rightarrow>
          (case identities_of us of
             Inl err \<Rightarrow> Inl err
           | Inr r \<Rightarrow> Inr (\<lparr> identity_id = get_prop kvs ''UniqueID'', installedVersion = None,
                              updateKeys = None \<rparr> # r))
      | _ \<Rightarrow> Inl TypeError)"

text \<open>
  Line 131, \<open>smapiRequest.find(m => m.id.toLowerCase() === rule.UniqueID.toLowerCase())\<close>.
\<close>

fun find_data :: "(string \<Rightarrow> string) \<Rightarrow> IAPIMod list \<Rightarrow> jsval \<Rightarrow> error + IAPIMod option" where
  "find_data lc [] declared = Inr None"
| "find_data lc (m # ms) declared =
     (case entry_id m of
        None \<Rightarrow> Inl TypeError
      | Some i \<Rightarrow>
          (case lower_UniqueID lc declared of
             Inl err \<Rightarrow> Inl err
           | Inr u \<Rightarrow> if lc i = u then Inr (Some m) else find_data lc ms declared))"

definition catalog_rule :: "IAPIMod \<Rightarrow> jsval \<Rightarrow> rule" where
  "catalog_rule found declared =
     \<lparr> type = None,
       reference = Some (empty_reference
         \<lparr> idHint := entry_id found,
           description := (case metadata_name found of
                             None \<Rightarrow> entry_id found
                           | Some n \<Rightarrow> if n = [] then entry_id found else Some n),
           instructions := Some ''Download the required version.'' \<rparr>),
       downloadHint = Some \<lparr> mode = ''browse'',
         url = (case metadata_main_url found of
                  None \<Rightarrow> default_url
                | Some u \<Rightarrow> if u = [] then default_url else u) \<rparr>,
       extra = Some (js_or (dep_prop declared ''isRequired'') (JBool False)) \<rparr>"

text \<open>
  The callback of \<open>unfulfilled.map\<close> (lines 130 to 148): \<open>if (!data) return;\<close> leaves
  undefined (\<open>None\<close>) in the array.
\<close>

fun unfulfilled_rules ::
  "(string \<Rightarrow> string) \<Rightarrow> response_data \<Rightarrow> jsval list \<Rightarrow> error + rule option list" where
  "unfulfilled_rules lc smapiRequest [] = Inr []"
| "unfulfilled_rules lc smapiRequest (declared # ds) =
     (case (case smapiRequest of
              NotAnArray \<Rightarrow> Inl TypeError
            | Mods entries \<Rightarrow> find_data lc entries declared) of
        Inl err \<Rightarrow> Inl err
      | Inr found \<Rightarrow>
          (case unfulfilled_rules lc smapiRequest ds of
             Inl err \<Rightarrow> Inl err
           | Inr rs \<Rightarrow> Inr (map_option (\<lambda>d. catalog_rule d declared) found # rs)))"

text \<open>
  \<open>f.apply(thisArg, args)\<close> for \<open>f = Array.prototype.concat\<close>: the elements of \<open>thisArg\<close>
  followed by the arguments (none of which is an array here).
\<close>

definition concat_apply :: "'a list \<Rightarrow> 'a list \<Rightarrow> 'a list" where
  "concat_apply thisArg args = thisArg @ args"

text \<open>
  \<open>getModDependencies(context, manifest)\<close>, with the installed mods
  \<open>state.persistent.mods?.[GAME_ID]\<close>. The function returns at line 150 with
  \<open>rules.concat.apply([], unfulfilledRules)\<close>, and from the \<open>catch\<close> with \<open>rules\<close>.
\<close>

definition getModDependencies ::
  "env \<Rightarrow> (string \<times> IMod) list option \<Rightarrow> jsval \<Rightarrow> (error + rule option list) \<times> event list" where
  "getModDependencies e mods manifest =
     (let lc = toLowerCase e;
          contentPackFor = normaliseDependencies lc (getManifestValue lc manifest ''ContentPackFor'')
      in case js_or (getManifestValue lc manifest ''Dependencies'') (JArr []) of
           JArr raw \<Rightarrow>
             (let normalised = map (normaliseDependencies lc) raw
              in if \<not> truthy contentPackFor \<and> normalised = [] then (Inr [], [])
                 else
                   (let dependencies =
                          (if truthy contentPackFor
                           then normalised @
                                [JObj [(''UniqueID'', dep_prop contentPackFor ''UniqueID''),
                                       (''isRequired'', JBool True)]]
                           else normalised)
                    in case mods of
                         None \<Rightarrow> (Inl TypeError, [])
                       | Some ms \<Rightarrow>
                           (case smapi_mods (map snd ms) of
                              Inl err \<Rightarrow> (Inl err, [])
                            | Inr smapiMods \<Rightarrow>
                                (case match_pass e smapiMods dependencies of
                                   Inl err \<Rightarrow> (Inl err, [])
                                 | Inr (rs, unfulfilled) \<Rightarrow>
                                     (case identities_of unfulfilled of
                                        Inl err \<Rightarrow> (Inl err, [])
                                      | Inr modsToSend \<Rightarrow>
                                          (case sendQuery e modsToSend (Some True) of
                                             (answer, evs) \<Rightarrow>
                                               (case (case answer of
                                                        Inl err \<Rightarrow> Inl err
                                                      | Inr smapiRequest \<Rightarrow>
                                                          unfulfilled_rules lc smapiRequest unfulfilled) of
                                                  Inr unfulfilledRules \<Rightarrow>
                                                    (Inr (concat_apply [] unfulfilledRules), evs)
                                                | Inl err \<Rightarrow>
                                                    (Inr (map Some rs),
                                                     evs @ [Log ''error''
                                                       ''There was an error fetching dependency data for SMAPI mods'']))))))))
         | _ \<Rightarrow> (Inl TypeError, []))"

section \<open>The semver library\<close>

text \<open>
  node-semver is a library the extension calls, not part of the repository. Two of its
  functions are used, in \<open>semver.satisfies(v, `${semver.coerce(min)}^`)\<close>.

  \<open>semver.coerce\<close> returns a version object, which prints in a template literal as its
  version string, or null, which prints as \<open>null\<close>; what it returns is the parameter
  \<open>coerce\<close>.

  \<open>semver.satisfies(v, range)\<close> is false when \<open>new Range(range)\<close> throws
  (functions/satisfies.js). In the range grammar the caret is a prefix operator
  (\<open>^1.2.3\<close>); a comparator that ends in a caret matches none of the library's
  patterns, all anchored at the end of the comparator, so \<open>new Comparator\<close> throws
  (classes/comparator.js) and with it the range. What the library answers on a range
  that does not end in a caret is the parameter \<open>range_test\<close>.
\<close>

record semver =
  coerce :: "string \<Rightarrow> string option"
  range_test :: "string \<Rightarrow> string \<Rightarrow> bool"

definition coerce_template :: "semver \<Rightarrow> string \<Rightarrow> string" where
  "coerce_template lib v = (case coerce lib v of None \<Rightarrow> ''null'' | Some s \<Rightarrow> s)"

definition satisfies :: "semver \<Rightarrow> string \<Rightarrow> string \<Rightarrow> bool" where
  "satisfies lib v r =
     (if r \<noteq> [] \<and> last r = CHR ''^'' then False else range_test lib v r)"

section \<open>events/modToggled.ts (src/unnamed/part\_001): mapDependencies\<close>

text \<open>\<open>new Set(xs)\<close> as the list of its elements in insertion order.\<close>

definition set_add :: "'a list \<Rightarrow> 'a \<Rightarrow> 'a list" where
  "set_add s x = (if x \<in> set s then s else s @ [x])"

definition new_Set :: "'a list \<Rightarrow> 'a list" where
  "new_Set xs = foldl set_add [] xs"

text \<open>\<open>!!d.UniqueID\<close> and \<open>d.UniqueID || ''\<close>.\<close>

definition has_UniqueID :: "dependency \<Rightarrow> bool" where
  "has_UniqueID d = (case UniqueID d of None \<Rightarrow> False | Some u \<Rightarrow> u \<noteq> [])"

definition depName_of :: "dependency \<Rightarrow> string" where
  "depName_of d = (case UniqueID d of None \<Rightarrow> [] | Some u \<Rightarrow> u)"

text \<open>
  Lines 46 to 51: the set of the truthy identifiers, then for each of them the first
  declaration with exactly (\<open>===\<close>) that identifier.
\<close>

definition filteredDependencies :: "dependency list \<Rightarrow> dependency list" where
  "filteredDependencies dependencies =
     (let depIds = new_Set (map depName_of (filter has_UniqueID dependencies))
      in foldl (\<lambda>prev cur.
                  case find (\<lambda>d. UniqueID d = Some cur) dependencies of
                    None \<Rightarrow> prev
                  | Some m \<Rightarrow> prev @ [m])
               [] depIds)"

text \<open>\<open>isRequired === true ? 'requires' : 'recommends'\<close>\<close>

definition rule_kind :: "dependency \<Rightarrow> rule_type" where
  "rule_kind d = (if isRequired d = JBool True then requires else recommends)"

text \<open>\<open>MinimumVersion ? `${MinimumVersion}^` : '*'\<close>\<close>

definition version_constraint :: "dependency \<Rightarrow> string" where
  "version_constraint d =
     (case MinimumVersion d of
        None \<Rightarrow> ''*''
      | Some v \<Rightarrow> if v = [] then ''*'' else v @ ''^'')"

text \<open>
  The names of the properties that every plain object inherits from \<open>Object.prototype\<close>
  (\<open>Object.getOwnPropertyNames(Object.prototype)\<close>). Read on an object of the host's
  state, each yields a truthy value (a function, or the prototype itself for
  \<open>__proto__\<close>) that has no property \<open>Version\<close>.
\<close>

definition Object_prototype_keys :: "string list" where
  "Object_prototype_keys =
     [''constructor'', ''__defineGetter__'', ''__defineSetter__'', ''hasOwnProperty'',
      ''__lookupGetter__'', ''__lookupSetter__'', ''isPrototypeOf'', ''propertyIsEnumerable'',
      ''toString'', ''valueOf'', ''__proto__'', ''toLocaleString'']"

text \<open>
  \<open>m.attributes?.smapiManifests?.[depName]\<close>: the manifest stored under the key, or
  the inherited property of that name, or undefined.
\<close>

datatype stored = Own manifest | Inherited | Undefined

definition stored_manifest :: "IMod \<Rightarrow> string \<Rightarrow> stored" where
  "stored_manifest m depName =
     (case mod_attributes m of
        None \<Rightarrow> Undefined
      | Some a \<Rightarrow>
          (case smapiManifests a of
             None \<Rightarrow> Undefined
           | Some ms \<Rightarrow>
               (case map_of ms depName of
                  Some mf \<Rightarrow> Own mf
                | None \<Rightarrow> if depName \<in> set Object_prototype_keys then Inherited else Undefined)))"

definition candidates_of :: "IMod list \<Rightarrow> string \<Rightarrow> IMod list" where
  "candidates_of modArray depName =
     filter (\<lambda>m. stored_manifest m depName \<noteq> Undefined) modArray"

text \<open>
  The callback of \<open>candidates.find\<close> (lines 64 to 70). A candidate has a value under
  \<open>depName\<close>, so the branch for undefined is never taken; an inherited value has no
  \<open>Version\<close>.
\<close>

definition candidate_ok :: "semver \<Rightarrow> dependency \<Rightarrow> IMod \<Rightarrow> bool" where
  "candidate_ok lib depToFind m =
     (case MinimumVersion depToFind of
        None \<Rightarrow> True
      | Some v \<Rightarrow>
          if v = [] then True
          else (case stored_manifest m (depName_of depToFind) of
                  Undefined \<Rightarrow> False
                | Inherited \<Rightarrow> False
                | Own mf \<Rightarrow>
                    (case Version mf of
                       None \<Rightarrow> False
                     | Some modDepVersion \<Rightarrow>
                         if modDepVersion = [] then False
                         else satisfies lib modDepVersion (coerce_template lib v @ ''^''))))"

definition local_match :: "semver \<Rightarrow> IMod list \<Rightarrow> dependency \<Rightarrow> IMod option" where
  "local_match lib modArray depToFind =
     find (candidate_ok lib depToFind) (candidates_of modArray (depName_of depToFind))"

definition local_rule :: "dependency \<Rightarrow> IMod \<Rightarrow> rule" where
  "local_rule depToFind m =
     \<lparr> type = Some (rule_kind depToFind),
       reference = Some (empty_reference
         \<lparr> ref_id := Some (mod_id m),
           versionMatch := Some (version_constraint depToFind),
           description := UniqueID depToFind \<rparr>),
       downloadHint = None,
       extra = None \<rparr>"

text \<open>
  The loop of lines 59 to 87: the rules pushed to \<open>smapiRules\<close> and the declarations
  pushed to \<open>missingDependencies\<close>, each in the order of the iteration.
\<close>

fun local_pass :: "semver \<Rightarrow> IMod list \<Rightarrow> dependency list \<Rightarrow> rule list \<times> dependency list" where
  "local_pass lib modArray [] = ([], [])"
| "local_pass lib modArray (depToFind # ds) =
     (case local_pass lib modArray ds of
        (smapiRules, missingDependencies) \<Rightarrow>
          (case local_match lib modArray depToFind of
             Some m \<Rightarrow> (local_rule depToFind m # smapiRules, missingDependencies)
           | None \<Rightarrow> (smapiRules, depToFind # missingDependencies)))"

text \<open>
  \<open>smapiData.find(s => s.id.toLowerCase() === mod.UniqueID.toLowerCase())\<close>: reading
  \<open>toLowerCase\<close> of a missing \<open>id\<close> throws a TypeError, as does \<open>find\<close> on a body that is
  not an array.
\<close>

fun find_entry :: "(string \<Rightarrow> string) \<Rightarrow> IAPIMod list \<Rightarrow> string \<Rightarrow> error + IAPIMod option" where
  "find_entry lc [] u = Inr None"
| "find_entry lc (s # ss) u =
     (case entry_id s of
        None \<Rightarrow> Inl TypeError
      | Some i \<Rightarrow> if lc i = lc u then Inr (Some s) else find_entry lc ss u)"

definition find_in_response ::
  "(string \<Rightarrow> string) \<Rightarrow> response_data \<Rightarrow> string \<Rightarrow> error + IAPIMod option" where
  "find_in_response lc smapiData u =
     (case smapiData of NotAnArray \<Rightarrow> Inl TypeError | Mods entries \<Rightarrow> find_entry lc entries u)"

definition remote_rule :: "IAPIMod \<Rightarrow> dependency \<Rightarrow> rule" where
  "remote_rule smapiInfo d =
     \<lparr> type = Some (rule_kind d),
       reference = Some (empty_reference
         \<lparr> idHint := entry_id smapiInfo,
           description := entry_id smapiInfo,
           instructions := Some ''Download the required version.'' \<rparr>),
       downloadHint = Some \<lparr> mode = ''browse'',
         url = (case metadata_main_url smapiInfo of
                  None \<Rightarrow> default_url
                | Some u \<Rightarrow> if u = [] then default_url else u) \<rparr>,
       extra = Some (js_or (isRequired d) (JBool False)) \<rparr>"

definition unresolved_rule :: "dependency \<Rightarrow> rule" where
  "unresolved_rule d =
     \<lparr> type = Some (rule_kind d),
       reference = Some (empty_reference
         \<lparr> version := Some (version_constraint d),
           fileExpression := UniqueID d \<rparr>),
       downloadHint = None,
       extra = None \<rparr>"

text \<open>The callback of \<open>missingDependencies.map\<close> in the \<open>try\<close> (lines 95 to 127).\<close>

definition api_rule :: "(string \<Rightarrow> string) \<Rightarrow> response_data \<Rightarrow> dependency \<Rightarrow> error + rule" where
  "api_rule lc smapiData d =
     (case find_in_response lc smapiData (depName_of d) of
        Inl err \<Rightarrow> Inl err
      | Inr (Some smapiInfo) \<Rightarrow> Inr (remote_rule smapiInfo d)
      | Inr None \<Rightarrow> Inr (unresolved_rule d))"

fun api_rules ::
  "(string \<Rightarrow> string) \<Rightarrow> response_data \<Rightarrow> dependency list \<Rightarrow> error + rule list" where
  "api_rules lc smapiData [] = Inr []"
| "api_rules lc smapiData (d # ds) =
     (case api_rule lc smapiData d of
        Inl err \<Rightarrow> Inl err
      | Inr r \<Rightarrow>
          (case api_rules lc smapiData ds of
             Inl err \<Rightarrow> Inl err
           | Inr rs \<Rightarrow> Inr (r # rs)))"

text \<open>Line 92: \<open>missingDependencies.map(d => ({ id: d.UniqueID }))\<close>\<close>

definition missingMods_of :: "dependency list \<Rightarrow> IAPIModIdentity list" where
  "missingMods_of missingDependencies =
     map (\<lambda>d. \<lparr> identity_id = (case UniqueID d of None \<Rightarrow> JUndefined | Some u \<Rightarrow> JStr u),
                 installedVersion = None,
                 updateKeys = None \<rparr>) missingDependencies"

text \<open>
  \<open>mapDependencies(api, mods, dependencies)\<close>: the rules returned and the effects. On the
  path through the \<open>try\<close> the result is \<open>[...smapiRules, ...rules]\<close>; the \<open>catch\<close> logs
  and returns \<open>missingDependencies.map(...)\<close>.
\<close>

definition mapDependencies ::
  "semver \<Rightarrow> env \<Rightarrow> (string \<times> IMod) list \<Rightarrow> dependency list \<Rightarrow> rule list \<times> event list" where
  "mapDependencies lib e mods dependencies =
     (let modArray = map snd mods;
          filtered = filteredDependencies dependencies
      in case local_pass lib modArray filtered of
           (smapiRules, missingDependencies) \<Rightarrow>
             (let missingMods = missingMods_of missingDependencies
              in case sendQuery e missingMods (Some True) of
                   (answer, evs) \<Rightarrow>
                     (case (case answer of
                              Inl err \<Rightarrow> Inl err
                            | Inr smapiData \<Rightarrow>
                                api_rules (toLowerCase e) smapiData missingDependencies) of
                        Inr rs \<Rightarrow> (smapiRules @ rs, evs)
                      | Inl err \<Rightarrow>
                          (map unresolved_rule missingDependencies,
                           evs @ [Log ''error'' ''Could not get dependency data from SMAPI'']))))"

text \<open>
  The values of two locals of \<open>mapDependencies\<close>: \<open>missingDependencies\<close> after the loop
  (line 89) and \<open>smapiData\<close>, the answer of \<open>sendQuery\<close> (line 93).
\<close>

definition missingDependencies_of ::
  "semver \<Rightarrow> (string \<times> IMod) list \<Rightarrow> dependency list \<Rightarrow> dependency list" where
  "missingDependencies_of lib mods dependencies =
     snd (local_pass lib (map snd mods) (filteredDependencies dependencies))"

definition smapiData_of ::
  "semver \<Rightarrow> env \<Rightarrow> (string \<times> IMod) list \<Rightarrow> dependency list \<Rightarrow> error + response_data" where
  "smapiData_of lib e mods dependencies =
     fst (sendQuery e (missingMods_of (missingDependencies_of lib mods dependencies)) (Some True))"

text \<open>
  A response body of the declared type \<open>IAPIPostResponse\<close>: an array whose entries have
  an \<open>id\<close>.
\<close>

definition well_typed_response :: "response_data \<Rightarrow> bool" where
  "well_typed_response smapiData =
     (case smapiData of NotAnArray \<Rightarrow> False | Mods entries \<Rightarrow> list_all (\<lambda>s. entry_id s \<noteq> None) entries)"

section \<open>events/modToggled.ts (src/unnamed/part\_001): modToggled\<close>

text \<open>
  The host's state as \<open>modToggled\<close> reads it: the game of a profile
  (\<open>selectors.profileById(state, profileId)?.gameId\<close>), the installed mods of the game
  (\<open>state.persistent.mods?.[GAME_ID]\<close>, in enumeration order) and the store of the array
  objects that the stored manifests refer to as their \<open>Dependencies\<close>.
\<close>

record host_state =
  profile_gameId :: "string \<Rightarrow> string option"
  persistent_mods :: "(string \<times> IMod) list option"
  arrays :: "nat \<Rightarrow> dependency list"

text \<open>\<open>mr.reference.id\<close> and \<open>r.reference?.fileExpression\<close>\<close>

definition rule_ref_id :: "rule \<Rightarrow> string option" where
  "rule_ref_id mr = (case reference mr of None \<Rightarrow> None | Some rf \<Rightarrow> ref_id rf)"

definition rule_fileExpression :: "rule \<Rightarrow> string option" where
  "rule_fileExpression r = (case reference r of None \<Rightarrow> None | Some rf \<Rightarrow> fileExpression rf)"

text \<open>Line 33: the stored rules matched by some newly mapped rule.\<close>

definition rulesToRemove :: "rule list \<Rightarrow> rule list \<Rightarrow> rule list" where
  "rulesToRemove existingRules mappedRules =
     filter (\<lambda>r. find (\<lambda>mr. rule_ref_id mr = rule_fileExpression r) mappedRules \<noteq> None)
       existingRules"

text \<open>The declaration pushed for a content pack (line 28).\<close>

definition content_pack_dependency :: "content_pack \<Rightarrow> dependency" where
  "content_pack_dependency cp =
     \<lparr> UniqueID = cp_UniqueID cp, isRequired = JBool True, MinimumVersion = None \<rparr>"

text \<open>
  Lines 25 to 28. \<open>new SMAPIManifestClass(manifest)\<close> copies the reference held under
  \<open>Dependencies\<close> (or takes a new empty array when there is none), so
  \<open>dependencies.push\<close> writes to the array object that the stored manifest refers to.
  The result is the store of arrays after the push and the contents of \<open>dependencies\<close>.
\<close>

definition parsed_dependencies ::
  "(nat \<Rightarrow> dependency list) \<Rightarrow> manifest \<Rightarrow> (nat \<Rightarrow> dependency list) \<times> dependency list" where
  "parsed_dependencies heap mf =
     (case Dependencies mf of
        Some a \<Rightarrow>
          (case ContentPackFor mf of
             None \<Rightarrow> (heap, heap a)
           | Some cp \<Rightarrow>
               (let heap' = heap (a := heap a @ [content_pack_dependency cp])
                in (heap', heap' a)))
      | None \<Rightarrow>
          (case ContentPackFor mf of
             None \<Rightarrow> (heap, [])
           | Some cp \<Rightarrow> (heap, [content_pack_dependency cp])))"

text \<open>
  One iteration of the loop over the stored manifests (lines 24 to 39), from the store of
  arrays and the effects so far. \<open>mods\<close> and \<open>m\<close> are the snapshot read at line 8.
\<close>

definition reconcile_manifest ::
  "semver \<Rightarrow> env \<Rightarrow> (string \<times> IMod) list \<Rightarrow> IMod \<Rightarrow>
   (nat \<Rightarrow> dependency list) \<times> event list \<Rightarrow> manifest \<Rightarrow>
   (nat \<Rightarrow> dependency list) \<times> event list" where
  "reconcile_manifest lib e mods m st mf =
     (case st of
        (heap, trace) \<Rightarrow>
          (case parsed_dependencies heap mf of
             (heap', dependencies) \<Rightarrow>
               (case mapDependencies lib e mods dependencies of
                  (mappedRules, evs) \<Rightarrow>
                    if mappedRules = [] then (heap', trace @ evs)
                    else
                      (let existingRules = (case rules m of None \<Rightarrow> [] | Some rs \<Rightarrow> rs);
                           toRemove = rulesToRemove existingRules mappedRules
                       in (heap',
                           trace @ evs @
                           [BatchDispatch (map (removeModRule GAME_ID (mod_id m)) toRemove),
                            BatchDispatch (map (addModRule GAME_ID (mod_id m)) mappedRules)])))))"

text \<open>
  \<open>modToggled(api, profileId, modId)\<close>. When \<open>modId\<close> is not a key of the installed
  mods the function returns at line 15 or, for the name of an inherited property, at
  line 21 (the inherited value has no \<open>attributes\<close>): no effect either way.
\<close>

definition modToggled ::
  "semver \<Rightarrow> env \<Rightarrow> host_state \<Rightarrow> string \<Rightarrow> string \<Rightarrow>
   (nat \<Rightarrow> dependency list) \<times> event list" where
  "modToggled lib e state profileId toggledId =
     (if profile_gameId state profileId \<noteq> Some GAME_ID then (arrays state, [])
      else
        (let mods = (case persistent_mods state of None \<Rightarrow> [] | Some ms \<Rightarrow> ms)
         in case map_of mods toggledId of
              None \<Rightarrow> (arrays state, [])
            | Some m \<Rightarrow>
                (case (case mod_attributes m of None \<Rightarrow> None | Some a \<Rightarrow> smapiManifests a) of
                   None \<Rightarrow> (arrays state, [])
                 | Some stored \<Rightarrow>
                     if stored = [] then (arrays state, [])
                     else foldl (reconcile_manifest lib e mods m) (arrays state, [])
                            (map snd stored))))"

section \<open>Scenarios\<close>

definition lower_char :: "char \<Rightarrow> char" where
  "lower_char c =
     (let n = (of_char c :: nat) in if 65 \<le> n \<and> n \<le> 90 then char_of (n + 32) else c)"

text \<open>
  The strings of the scenarios are ASCII, and on an ASCII string
  \<open>String.prototype.toLowerCase\<close> is this function.
\<close>

definition ascii_toLowerCase :: "string \<Rightarrow> string" where
  "ascii_toLowerCase s = map lower_char s"

text \<open>
  A host that knows the game at version 1.5.6.1 on Windows, with a catalog that answers
  every request with the same body.
\<close>

definition scenario_env :: "response_data \<Rightarrow> env" where
  "scenario_env body =
     \<lparr> game_defined = True,
       getInstalledVersion = Inr (Some ''1.5.6.1''),
       process_platform = ''win32'',
       post = (\<lambda>u r. Inr body),
       renderModName = mod_id,
       toLowerCase = ascii_toLowerCase \<rparr>"

text \<open>A host that does not know the installed version of the game.\<close>

definition versionless_env :: env where
  "versionless_env = (scenario_env (Mods [])) \<lparr> getInstalledVersion := Inr None \<rparr>"

text \<open>A host whose POST is rejected.\<close>

definition offline_env :: env where
  "offline_env = (scenario_env (Mods [])) \<lparr> post := (\<lambda>u r. Inl TransportError) \<rparr>"

text \<open>A semver library that accepts every version for every range it parses.\<close>

definition permissive_semver :: semver where
  "permissive_semver = \<lparr> coerce = Some, range_test = (\<lambda>v r. True) \<rparr>"

definition declared :: "string \<Rightarrow> jsval \<Rightarrow> string option \<Rightarrow> dependency" where
  "declared u r v = \<lparr> UniqueID = Some u, isRequired = r, MinimumVersion = v \<rparr>"

definition no_attributes :: attributes where
  "no_attributes =
     \<lparr> smapiManifests = None, smapiIDs = None, modData = None, modId = None,
       fileId = None, source = None \<rparr>"

text \<open>
  The installed mod \<open>mod-b\<close>, bundling the manifest \<open>{ UniqueID: "B", Version: "1.2.0" }\<close>.
\<close>

definition mod_b :: IMod where
  "mod_b =
     \<lparr> mod_id = ''mod-b'', archiveId = None,
       mod_attributes = Some (no_attributes
         \<lparr> smapiManifests :=
             Some [(''B'', \<lparr> Version = Some ''1.2.0'', Dependencies = None,
                             ContentPackFor = None \<rparr>)],
           smapiIDs := Some [\<lparr> smapi_id_id = ''B'' \<rparr>] \<rparr>),
       rules = None \<rparr>"

text \<open>
  The owner \<open>mod-a\<close>, whose stored manifest keeps its \<open>Dependencies\<close> in the array at
  address 0, with the given content pack reference and stored rules.
\<close>

definition mod_a :: "content_pack option \<Rightarrow> rule list option \<Rightarrow> IMod" where
  "mod_a cp stored =
     \<lparr> mod_id = ''mod-a'', archiveId = None,
       mod_attributes = Some (no_attributes
         \<lparr> smapiManifests :=
             Some [(''A'', \<lparr> Version = Some ''1.0.0'', Dependencies = Some 0,
                             ContentPackFor = cp \<rparr>)] \<rparr>),
       rules = stored \<rparr>"

text \<open>
  A state in which \<open>mod-a\<close> is the only installed mod and the array at address 0 holds the
  given declarations; the profile \<open>p1\<close> plays the game.
\<close>

definition owner_state :: "content_pack option \<Rightarrow> rule list option \<Rightarrow> dependency list \<Rightarrow> host_state" where
  "owner_state cp stored ds =
     \<lparr> profile_gameId = (\<lambda>p. if p = ''p1'' then Some GAME_ID else None),
       persistent_mods = Some [(''mod-a'', mod_a cp stored)],
       arrays = (\<lambda>a. if a = 0 then ds else []) \<rparr>"

section \<open>Facts about the deduplication\<close>

lemma set_foldl_set_add: "set (foldl set_add acc xs) = set acc \<union> set xs"
  by (induction xs arbitrary: acc) (auto simp: set_add_def)


lemma set_new_Set: "set (new_Set xs) = set xs"
  by (simp add: new_Set_def set_foldl_set_add)


lemma foldl_push:
  "foldl (\<lambda>prev cur. case f cur of None \<Rightarrow> prev | Some m \<Rightarrow> prev @ [m]) acc xs
     = acc @ List.map_filter f xs"
  by (induction xs arbitrary: acc) (auto simp: List.map_filter_simps split: option.splits)

lemma in_set_map_filter:
  "y \<in> set (List.map_filter f xs) \<longleftrightarrow> (\<exists>x \<in> set xs. f x = Some y)"
  by (induction xs) (auto split: option.splits)

lemma filteredDependencies_eq:
  "filteredDependencies ds =
     List.map_filter (\<lambda>cur. find (\<lambda>d. UniqueID d = Some cur) ds)
       (new_Set (map depName_of (filter has_UniqueID ds)))"
  by (simp add: filteredDependencies_def foldl_push)

lemma has_UniqueID_iff: "has_UniqueID d \<longleftrightarrow> (\<exists>u. UniqueID d = Some u \<and> u \<noteq> [])"
  by (auto simp: has_UniqueID_def split: option.splits)




lemma filteredDependencies_first:
  assumes "d \<in> set (filteredDependencies ds)"
  shows "has_UniqueID d \<and> d \<in> set ds \<and> find (\<lambda>x. UniqueID x = UniqueID d) ds = Some d"
proof -
  from assms obtain cur where cur: "cur \<in> set (map depName_of (filter has_UniqueID ds))"
      and f: "find (\<lambda>x. UniqueID x = Some cur) ds = Some d"
    by (auto simp: filteredDependencies_eq in_set_map_filter set_new_Set)
  from f have u: "UniqueID d = Some cur" and m: "d \<in> set ds"
    by (auto simp: find_Some_iff)
  from cur have "cur \<noteq> []"
    by (auto simp: has_UniqueID_def depName_of_def split: option.splits)
  with u f m show ?thesis by (simp add: has_UniqueID_def)
qed


section \<open>Facts about the catalog client\<close>

lemma fst_sendQuery: "\<exists>data. fst (sendQuery e mods includeMeta) = Inr data"
  by (auto simp: sendQuery_def split: prod.splits sum.splits)

lemma getGameVersion_fails_iff:
  "(\<exists>err. getGameVersion e = Inl err) \<longleftrightarrow>
     (\<not> game_defined e \<or> (\<exists>err. getInstalledVersion e = Inl err)
      \<or> getInstalledVersion e = Inr None \<or> getInstalledVersion e = Inr (Some []))"
  by (auto simp: getGameVersion_def split: sum.splits option.splits if_splits)

lemma foldl_append_concat:
  "foldl (\<lambda>prev cur. prev @ f cur) acc xs = acc @ concat (map f xs)"
  by (induction xs arbitrary: acc) simp_all

section \<open>Facts about the resolver\<close>

lemma snd_local_pass:
  "snd (local_pass lib modArray ds) = filter (\<lambda>d. local_match lib modArray d = None) ds"
  by (induction ds) (auto split: prod.splits option.splits)

lemma fst_local_pass:
  "r \<in> set (fst (local_pass lib modArray ds)) \<longleftrightarrow>
     (\<exists>d \<in> set ds. \<exists>m. local_match lib modArray d = Some m \<and> r = local_rule d m)"
  by (induction ds) (auto split: prod.splits option.splits)

lemma length_local_pass:
  "length (fst (local_pass lib modArray ds)) + length (snd (local_pass lib modArray ds)) = length ds"
  by (induction ds) (auto split: prod.splits option.splits)

text \<open>The local rules, in order, are those of the declarations that match an installed mod.\<close>

lemma local_pass_all2:
  "list_all2 (\<lambda>d r. \<exists>m. local_match lib modArray d = Some m \<and> r = local_rule d m)
     (filter (\<lambda>d. local_match lib modArray d \<noteq> None) ds)
     (fst (local_pass lib modArray ds))"
  by (induction ds) (auto split: prod.splits option.splits)

lemma find_entry_Some:
  "find_entry lc entries u = Inr (Some s) \<Longrightarrow>
     s \<in> set entries \<and> (\<exists>i. entry_id s = Some i \<and> lc i = lc u)"
  by (induction entries) (auto split: option.splits if_splits)

lemma api_rule_cases:
  "api_rule lc smapiData d = Inr r \<Longrightarrow>
     find_in_response lc smapiData (depName_of d) = Inr None \<and> r = unresolved_rule d
   \<or> (\<exists>s. find_in_response lc smapiData (depName_of d) = Inr (Some s) \<and> r = remote_rule s d)"
  by (auto simp: api_rule_def split: sum.splits option.splits)

lemma api_rules_mem:
  "api_rules lc smapiData ds = Inr rs \<Longrightarrow> r \<in> set rs \<Longrightarrow>
     \<exists>d \<in> set ds. api_rule lc smapiData d = Inr r"
  by (induction ds arbitrary: rs) (auto split: sum.splits)

lemma api_rules_emits:
  "api_rules lc smapiData ds = Inr rs \<Longrightarrow> d \<in> set ds \<Longrightarrow>
     \<exists>r \<in> set rs. api_rule lc smapiData d = Inr r"
  by (induction ds arbitrary: rs) (auto split: sum.splits)

lemma api_rules_length:
  "api_rules lc smapiData ds = Inr rs \<Longrightarrow> length rs = length ds"
  by (induction ds arbitrary: rs) (auto split: sum.splits)

lemma api_rules_all2:
  "api_rules lc smapiData ds = Inr rs \<Longrightarrow>
     list_all2 (\<lambda>d r. api_rule lc smapiData d = Inr r) ds rs"
  by (induction ds arbitrary: rs) (auto split: sum.splits)

lemma mapDependencies_cases:
  obtains (mapped) smapiData evs rs where
      "sendQuery e (missingMods_of (snd (local_pass lib (map snd mods) (filteredDependencies ds))))
         (Some True) = (Inr smapiData, evs)"
      "api_rules (toLowerCase e) smapiData
         (snd (local_pass lib (map snd mods) (filteredDependencies ds))) = Inr rs"
      "mapDependencies lib e mods ds =
         (fst (local_pass lib (map snd mods) (filteredDependencies ds)) @ rs, evs)"
  | (caught) smapiData evs err where
      "sendQuery e (missingMods_of (snd (local_pass lib (map snd mods) (filteredDependencies ds))))
         (Some True) = (Inr smapiData, evs)"
      "api_rules (toLowerCase e) smapiData
         (snd (local_pass lib (map snd mods) (filteredDependencies ds))) = Inl err"
      "mapDependencies lib e mods ds =
         (map unresolved_rule (snd (local_pass lib (map snd mods) (filteredDependencies ds))),
          evs @ [Log ''error'' ''Could not get dependency data from SMAPI''])"
proof -
  obtain smapiRules missing where lp:
    "local_pass lib (map snd mods) (filteredDependencies ds) = (smapiRules, missing)"
    by (cases "local_pass lib (map snd mods) (filteredDependencies ds)")
  obtain answer evs where sq: "sendQuery e (missingMods_of missing) (Some True) = (answer, evs)"
    by (cases "sendQuery e (missingMods_of missing) (Some True)")
  from fst_sendQuery [of e "missingMods_of missing" "Some True"] sq
  obtain smapiData where a: "answer = Inr smapiData" by auto
  show thesis
  proof (cases "api_rules (toLowerCase e) smapiData missing")
    case (Inl err)
    with lp sq a show ?thesis
      by (intro caught [of smapiData evs err]) (simp_all add: mapDependencies_def)
  next
    case (Inr rs)
    with lp sq a show ?thesis
      by (intro mapped [of smapiData evs rs]) (simp_all add: mapDependencies_def)
  qed
qed

lemma missingDependencies_of_iff:
  "d \<in> set (missingDependencies_of lib mods ds) \<longleftrightarrow>
     d \<in> set (filteredDependencies ds) \<and> local_match lib (map snd mods) d = None"
  by (auto simp: missingDependencies_of_def snd_local_pass)

text \<open>
  The rules returned, position by position. They are the rules of the declarations that
  match an installed mod followed by the rules of the others, or, from the \<open>catch\<close>, the
  rules of the others only; the rule at a position is the one built for the declaration
  at that position.
\<close>

lemma mapDependencies_rules:
  "\<exists>ds. (ds = filter (\<lambda>d. local_match lib (map snd mods) d \<noteq> None)
                (filteredDependencies dependencies)
              @ missingDependencies_of lib mods dependencies
         \<or> ds = missingDependencies_of lib mods dependencies)
      \<and> list_all2
           (\<lambda>d r. (\<exists>m. local_match lib (map snd mods) d = Some m \<and> r = local_rule d m)
                 \<or> local_match lib (map snd mods) d = None \<and> r = unresolved_rule d
                 \<or> local_match lib (map snd mods) d = None
                    \<and> (\<exists>s smapiData.
                          smapiData_of lib e mods dependencies = Inr smapiData
                        \<and> find_in_response (toLowerCase e) smapiData (depName_of d)
                            = Inr (Some s)
                        \<and> r = remote_rule s d))
           ds (fst (mapDependencies lib e mods dependencies))"
  (is "\<exists>ds. (ds = ?locals @ ?missing \<or> ds = ?missing) \<and> list_all2 ?P ds ?result")
proof (cases rule: mapDependencies_cases [of e lib mods dependencies])
  case (mapped smapiData evs rs)
  have m: "?missing = snd (local_pass lib (map snd mods) (filteredDependencies dependencies))"
    by (simp add: missingDependencies_of_def)
  from mapped(1) have sd: "smapiData_of lib e mods dependencies = Inr smapiData"
    by (simp add: smapiData_of_def missingDependencies_of_def)
  have "list_all2 ?P ?locals
          (fst (local_pass lib (map snd mods) (filteredDependencies dependencies)))"
    by (rule list_all2_mono [OF local_pass_all2]) blast
  moreover have "list_all2 ?P ?missing rs"
  proof (rule list.rel_mono_strong [OF api_rules_all2 [OF mapped(2) [folded m]]])
    fix d r
    assume d: "d \<in> set ?missing" and "r \<in> set rs"
      and r: "api_rule (toLowerCase e) smapiData d = Inr r"
    from d have "local_match lib (map snd mods) d = None"
      by (simp add: missingDependencies_of_iff)
    with api_rule_cases [OF r] sd show "?P d r" by blast
  qed
  ultimately have "list_all2 ?P (?locals @ ?missing) ?result"
    using mapped(3) by (simp add: list_all2_appendI)
  then show ?thesis by blast
next
  case (caught smapiData evs err)
  have "list_all2 ?P ?missing (map unresolved_rule ?missing)"
    by (simp add: list_all2_map2 list_all2_same missingDependencies_of_iff)
  with caught(3) have "list_all2 ?P ?missing ?result"
    by (simp add: missingDependencies_of_def)
  then show ?thesis by blast
qed

lemma no_candidates_no_match:
  "candidates_of modArray (depName_of d) = [] \<Longrightarrow> local_match lib modArray d = None"
  by (simp add: local_match_def)

lemma find_in_response_well_typed:
  "well_typed_response smapiData \<Longrightarrow> \<exists>found. find_in_response lc smapiData u = Inr found"
proof (cases smapiData)
  case NotAnArray
  then show "well_typed_response smapiData \<Longrightarrow> ?thesis" by (simp add: well_typed_response_def)
next
  case (Mods entries)
  have "list_all (\<lambda>s. entry_id s \<noteq> None) entries \<Longrightarrow> \<exists>found. find_entry lc entries u = Inr found"
    by (induction entries) (auto split: option.splits)
  with Mods show "well_typed_response smapiData \<Longrightarrow> ?thesis"
    by (simp add: well_typed_response_def find_in_response_def)
qed

lemma api_rules_well_typed:
  assumes "well_typed_response smapiData"
  shows "\<exists>rs. api_rules lc smapiData ds = Inr rs"
proof (induction ds)
  case Nil
  show ?case by simp
next
  case (Cons d ds)
  from find_in_response_well_typed [OF assms, of lc "depName_of d"]
  obtain found where "find_in_response lc smapiData (depName_of d) = Inr found" by blast
  then have "\<exists>r. api_rule lc smapiData d = Inr r"
    by (cases found) (simp_all add: api_rule_def)
  with Cons show ?case by auto
qed

text \<open>
  When the catalog's answer has the declared type, the \<open>try\<close> of \<open>mapDependencies\<close> does
  not throw and every declaration that survives the deduplication gets exactly one rule.
\<close>

lemma mapDependencies_one_rule_each:
  assumes "smapiData_of lib e mods ds = Inr smapiData" "well_typed_response smapiData"
  shows "length (fst (mapDependencies lib e mods ds)) = length (filteredDependencies ds)"
proof (cases rule: mapDependencies_cases [of e lib mods ds])
  case (mapped smapiData' evs rs)
  from mapped(2) have "length rs = length (snd (local_pass lib (map snd mods) (filteredDependencies ds)))"
    by (rule api_rules_length)
  with mapped(3) length_local_pass [of lib "map snd mods" "filteredDependencies ds"]
  show ?thesis by simp
next
  case (caught smapiData' evs err)
  from caught(1) assms(1) have "smapiData' = smapiData"
    by (simp add: smapiData_of_def missingDependencies_of_def)
  with caught(2)
    api_rules_well_typed [OF assms(2),
      of "toLowerCase e" "snd (local_pass lib (map snd mods) (filteredDependencies ds))"]
  show ?thesis by simp
qed

text \<open>
  A declaration that matches no installed mod and that no entry of the catalog's answer
  matches gets its unresolved rule, from the \<open>try\<close> and from the \<open>catch\<close> alike.
\<close>

lemma unresolved_rule_emitted:
  assumes "d \<in> set (filteredDependencies dependencies)"
      and "local_match lib (map snd mods) d = None"
      and "smapiData_of lib e mods dependencies = Inr smapiData"
      and "\<And>entries s i. smapiData = Mods entries \<Longrightarrow> s \<in> set entries \<Longrightarrow>
             entry_id s = Some i \<Longrightarrow> toLowerCase e i \<noteq> toLowerCase e (depName_of d)"
  shows "unresolved_rule d \<in> set (fst (mapDependencies lib e mods dependencies))
       \<and> type (unresolved_rule d) = Some (rule_kind d)
       \<and> (\<exists>u rf. UniqueID d = Some u \<and> u \<noteq> []
             \<and> reference (unresolved_rule d) = Some rf
             \<and> fileExpression rf = Some u
             \<and> version rf = Some (case MinimumVersion d of
                                     None \<Rightarrow> ''*''
                                   | Some v \<Rightarrow> if v = [] then ''*'' else v @ ''^''))"
proof -
  from assms(1,2) have m: "d \<in> set (snd (local_pass lib (map snd mods) (filteredDependencies dependencies)))"
    by (simp add: snd_local_pass)
  have emitted: "unresolved_rule d \<in> set (fst (mapDependencies lib e mods dependencies))"
  proof (cases rule: mapDependencies_cases [of e lib mods dependencies])
    case (mapped smapiData' evs rs)
    from mapped(1) assms(3) have eq: "smapiData' = smapiData"
      by (simp add: smapiData_of_def missingDependencies_of_def)
    from api_rules_emits [OF mapped(2) m] obtain r where
      r: "r \<in> set rs" "api_rule (toLowerCase e) smapiData d = Inr r"
      unfolding eq by blast
    from api_rule_cases [OF r(2)] have "r = unresolved_rule d"
    proof
      assume "find_in_response (toLowerCase e) smapiData (depName_of d) = Inr None
                \<and> r = unresolved_rule d"
      then show ?thesis by simp
    next
      assume "\<exists>s. find_in_response (toLowerCase e) smapiData (depName_of d) = Inr (Some s)
                \<and> r = remote_rule s d"
      then obtain s where
        "find_in_response (toLowerCase e) smapiData (depName_of d) = Inr (Some s)" by blast
      then obtain entries where "smapiData = Mods entries"
        "find_entry (toLowerCase e) entries (depName_of d) = Inr (Some s)"
        by (cases smapiData) (simp_all add: find_in_response_def)
      with find_entry_Some [of "toLowerCase e" entries "depName_of d" s] assms(4)
      show ?thesis by blast
    qed
    with r(1) mapped(3) show ?thesis by simp
  next
    case (caught smapiData' evs err)
    with m show ?thesis by simp
  qed
  from filteredDependencies_first [OF assms(1)] obtain u where "UniqueID d = Some u" "u \<noteq> []"
    by (auto simp: has_UniqueID_iff)
  with emitted show ?thesis
    by (simp add: unresolved_rule_def empty_reference_def version_constraint_def)
qed

lemma rule_fields:
  "type (local_rule d m) = Some (rule_kind d)"
  "extra (local_rule d m) = None"
  "type (unresolved_rule d) = Some (rule_kind d)"
  "extra (unresolved_rule d) = None"
  "type (remote_rule s d) = Some (rule_kind d)"
  "extra (remote_rule s d) = Some (js_or (isRequired d) (JBool False))"
  by (simp_all add: local_rule_def unresolved_rule_def remote_rule_def)

lemma satisfies_trailing_caret: "satisfies lib v (r @ ''^'') = False"
  by (simp add: satisfies_def)

text \<open>
  A declaration with a minimum version never matches an installed mod: the range handed
  to \<open>semver.satisfies\<close> ends in a caret.
\<close>

lemma local_match_with_minimum:
  assumes "MinimumVersion d = Some v" "v \<noteq> []"
  shows "local_match lib modArray d = None"
proof -
  have "\<not> candidate_ok lib d m" for m
    using assms
    by (auto simp: candidate_ok_def satisfies_trailing_caret split: option.splits stored.splits)
  then show ?thesis by (simp add: local_match_def find_None_iff)
qed

text \<open>
  When the only newly mapped rule is an unresolved one, the diff of line 33 selects the
  stored rules that have no \<open>fileExpression\<close>.
\<close>

lemma rulesToRemove_unresolved:
  "rulesToRemove existingRules [unresolved_rule d]
     = filter (\<lambda>r. rule_fileExpression r = None) existingRules"
  by (simp add: rulesToRemove_def rule_ref_id_def unresolved_rule_def empty_reference_def eq_commute)

text \<open>
  The only write of \<open>modToggled\<close> to the store of arrays: the push to the stored array
  of a manifest that has both \<open>Dependencies\<close> and \<open>ContentPackFor\<close>.
\<close>

lemma parsed_dependencies_store:
  "fst (parsed_dependencies heap mf) =
     (case (Dependencies mf, ContentPackFor mf) of
        (Some a, Some cp) \<Rightarrow> heap (a := heap a @ [content_pack_dependency cp])
      | _ \<Rightarrow> heap)"
  by (simp add: parsed_dependencies_def split: option.splits)

text \<open>
  The guard of \<open>fetchModInfo\<close>: with no identity to ask for, the result is the empty
  sequence and nothing is posted; otherwise the result is that of \<open>sendQuery\<close>.
\<close>

lemma fetchModInfo_guard:
  "fetchModInfo e includeMeta modsToCheck =
     (if concat (map mod_identities (map snd modsToCheck)) = [] then (Inr (Mods []), [])
      else sendQuery e (concat (map mod_identities (map snd modsToCheck))) (Some includeMeta))"
  by (simp only: fetchModInfo_def foldl_append_concat Let_def append_Nil)






section \<open>The claims of the specification\<close>

subsection \<open>C1: one rule per declared dependency on every path\<close>

text \<open>
  C1 states that dependency resolution returns exactly one rule per distinct declared
  dependency, locally satisfied ones included, on the success path and on the path where
  the catalog fails. The code does not:
  \<^item> \<open>getModDependencies\<close> returns \<open>rules.concat.apply([], unfulfilledRules)\<close>, which
    leaves out \<open>rules\<close>: with the owner manifest
    \<open>{ UniqueID: "A", Dependencies: [{ UniqueID: "B", isRequired: true }] }\<close> and the
    installed mod \<open>mod-b\<close> that provides \<open>B\<close>, the result is the empty list;
  \<^item> the \<open>catch\<close> of \<open>mapDependencies\<close> returns \<open>missingDependencies.map(...)\<close> only:
    with \<open>B\<close> installed, \<open>C\<close> not, and a response body that is not an array, the
    result holds the rule for \<open>C\<close> and none for \<open>B\<close>;
  \<^item> with the empty array as the answer, \<open>mapDependencies\<close> returns a rule for each.
\<close>

theorem installed_dependency_gets_no_rule:
  "fst (getModDependencies (scenario_env (Mods [])) (Some [(''mod-b'', mod_b)])
         (JObj [(''UniqueID'', JStr ''A''),
                (''Dependencies'',
                 JArr [JObj [(''UniqueID'', JStr ''B''), (''isRequired'', JBool True)]])]))
     = Inr []
   \<and> fst (mapDependencies lib (scenario_env NotAnArray) [(''mod-b'', mod_b)]
           [declared ''B'' (JBool True) None, declared ''C'' (JBool True) None])
     = [unresolved_rule (declared ''C'' (JBool True) None)]
   \<and> fst (mapDependencies lib (scenario_env (Mods [])) [(''mod-b'', mod_b)]
           [declared ''B'' (JBool True) None, declared ''C'' (JBool True) None])
     = [local_rule (declared ''B'' (JBool True) None) mod_b,
        unresolved_rule (declared ''C'' (JBool True) None)]"
  by (intro conjI; code_simp)

subsection \<open>C2: deduplication of declarations\<close>




subsection \<open>C3: the minimum version in local matching\<close>

text \<open>
  C3 states that an installed manifest with version 1.2.0 satisfies a dependency that
  declares the minimum version 1.0.0. In the code the range is built as
  \<open>`${semver.coerce(version)}^`\<close>, with the caret after the version, which
  \<open>semver.satisfies\<close> rejects for every version: the installed \<open>mod-b\<close> (manifest \<open>B\<close>,
  version 1.2.0) is not matched by the declaration \<open>{ UniqueID: "B", MinimumVersion: "1.0.0" }\<close>,
  which goes to the catalog and, absent there, gets an unresolved rule. The same
  declaration without a minimum version is matched by \<open>mod-b\<close>.
\<close>

theorem minimum_version_never_matches_locally:
  "\<not> satisfies lib ''1.2.0'' (coerce_template lib ''1.0.0'' @ ''^'')
   \<and> local_pass lib [mod_b] [declared ''B'' (JBool True) (Some ''1.0.0'')]
       = ([], [declared ''B'' (JBool True) (Some ''1.0.0'')])
   \<and> fst (mapDependencies lib (scenario_env (Mods [])) [(''mod-b'', mod_b)]
             [declared ''B'' (JBool True) (Some ''1.0.0'')])
       = [unresolved_rule (declared ''B'' (JBool True) (Some ''1.0.0''))]
   \<and> fst (mapDependencies lib (scenario_env (Mods [])) [(''mod-b'', mod_b)]
             [declared ''B'' (JBool True) None])
       = [local_rule (declared ''B'' (JBool True) None) mod_b]"
proof (intro conjI)
  show "\<not> satisfies lib ''1.2.0'' (coerce_template lib ''1.0.0'' @ ''^'')"
    by (simp add: satisfies_trailing_caret)
next
  have m: "local_match lib [mod_b] (declared ''B'' (JBool True) (Some ''1.0.0'')) = None"
    by (rule local_match_with_minimum [of _ "''1.0.0''"]) (simp_all add: declared_def)
  then show "local_pass lib [mod_b] [declared ''B'' (JBool True) (Some ''1.0.0'')]
       = ([], [declared ''B'' (JBool True) (Some ''1.0.0'')])"
    by simp
next
  let ?d = "declared ''B'' (JBool True) (Some ''1.0.0'')"
  have f: "filteredDependencies [?d] = [?d]" by code_simp
  have m: "local_match lib [mod_b] ?d = None"
    by (rule local_match_with_minimum [of _ "''1.0.0''"]) (simp_all add: declared_def)
  have q: "fst (sendQuery (scenario_env (Mods [])) (missingMods_of [?d]) (Some True))
             = Inr (Mods [])"
    by code_simp
  have a: "api_rules (toLowerCase (scenario_env (Mods []))) (Mods []) [?d]
             = Inr [unresolved_rule ?d]"
    by (simp add: api_rule_def find_in_response_def)
  from q obtain evs where
    q': "sendQuery (scenario_env (Mods [])) (missingMods_of [?d]) (Some True)
           = (Inr (Mods []), evs)"
    by (cases "sendQuery (scenario_env (Mods [])) (missingMods_of [?d]) (Some True)") simp
  from f m q' a
  show "fst (mapDependencies lib (scenario_env (Mods [])) [(''mod-b'', mod_b)] [?d])
       = [unresolved_rule ?d]"
    by (simp add: mapDependencies_def)
next
  show "fst (mapDependencies lib (scenario_env (Mods [])) [(''mod-b'', mod_b)]
             [declared ''B'' (JBool True) None])
       = [local_rule (declared ''B'' (JBool True) None) mod_b]"
    by code_simp
qed

subsection \<open>C4: running the reconciler twice\<close>

text \<open>
  C4 states that every rule added by a first run is matched for removal by the diff of a
  second run. The diff compares \<open>mr.reference.id\<close>, set on local rules only, with
  \<open>r.reference.fileExpression\<close>, set on unresolved rules only. For the owner \<open>mod-a\<close>
  declaring \<open>X\<close>, which is neither installed nor in the catalog, the first run adds the
  unresolved rule for \<open>X\<close>; the second run, with that rule stored, dispatches an empty
  removal batch and adds the same rule again.
\<close>

theorem second_run_removes_nothing:
  "snd (modToggled lib (scenario_env (Mods []))
          (owner_state None None [declared ''X'' (JBool True) None]) ''p1'' ''mod-a'')
     = [Post api_url
          \<lparr> req_mods = [\<lparr> identity_id = JStr ''X'', installedVersion = None,
                           updateKeys = None \<rparr>],
            apiVersion = ''3.0'', gameVersion = ''1.5.6'', platform = ''Windows'',
            includeExtendedMetadata = Some True \<rparr>,
        BatchDispatch [],
        BatchDispatch [addModRule GAME_ID ''mod-a''
                         (unresolved_rule (declared ''X'' (JBool True) None))]]
   \<and> snd (modToggled lib (scenario_env (Mods []))
          (owner_state None (Some [unresolved_rule (declared ''X'' (JBool True) None)])
             [declared ''X'' (JBool True) None]) ''p1'' ''mod-a'')
     = [Post api_url
          \<lparr> req_mods = [\<lparr> identity_id = JStr ''X'', installedVersion = None,
                           updateKeys = None \<rparr>],
            apiVersion = ''3.0'', gameVersion = ''1.5.6'', platform = ''Windows'',
            includeExtendedMetadata = Some True \<rparr>,
        BatchDispatch [],
        BatchDispatch [addModRule GAME_ID ''mod-a''
                         (unresolved_rule (declared ''X'' (JBool True) None))]]"
  by (intro conjI; code_simp)

subsection \<open>C5: what modToggled writes\<close>

text \<open>
  C5 states that \<open>modToggled\<close> leaves the stored manifests and their \<open>Dependencies\<close>
  arrays unchanged. For a stored manifest with \<open>Dependencies: [{ UniqueID: "B" }]\<close> and
  \<open>ContentPackFor: { UniqueID: "C" }\<close>, the array the manifest refers to holds two
  declarations after the call: line 28 pushes the content pack's declaration to it.
\<close>

theorem modToggled_writes_stored_Dependencies:
  "arrays (owner_state (Some (ContentPack (Some ''C''))) None
             [declared ''B'' (JBool True) None]) 0
     = [declared ''B'' (JBool True) None]
   \<and> fst (modToggled lib (scenario_env (Mods []))
            (owner_state (Some (ContentPack (Some ''C''))) None
               [declared ''B'' (JBool True) None]) ''p1'' ''mod-a'') 0
     = [declared ''B'' (JBool True) None,
        \<lparr> UniqueID = Some ''C'', isRequired = JBool True, MinimumVersion = None \<rparr>]"
  by (intro conjI; code_simp)

subsection \<open>C6: sendQuery never raises\<close>

text \<open>
  C6: for every batch and flag \<open>sendQuery\<close> returns a value. When the game version is
  unavailable (the host does not know the game, or the version lookup is rejected or
  yields nothing), the result is the empty sequence and the error is logged, with no
  request posted; when the POST is rejected, the result is the empty sequence and the
  error is logged after the request.
\<close>

theorem sendQuery_never_raises:
  "(\<exists>data. fst (sendQuery e mods includeMeta) = Inr data)
   \<and> ((\<not> game_defined e \<or> (\<exists>err. getInstalledVersion e = Inl err)
        \<or> getInstalledVersion e = Inr None \<or> getInstalledVersion e = Inr (Some []))
       \<longrightarrow> sendQuery e mods includeMeta
             = (Inr (Mods []), [Log ''error'' ''Error fetching data from the SMAPI API'']))
   \<and> (\<forall>gv err.
         getGameVersion e = Inr gv
         \<and> post e api_url \<lparr> req_mods = mods, apiVersion = ''3.0'', gameVersion = gv,
                             platform = platform_of (process_platform e),
                             includeExtendedMetadata = includeMeta \<rparr> = Inl err
       \<longrightarrow> sendQuery e mods includeMeta
             = (Inr (Mods []),
                [Post api_url \<lparr> req_mods = mods, apiVersion = ''3.0'', gameVersion = gv,
                                 platform = platform_of (process_platform e),
                                 includeExtendedMetadata = includeMeta \<rparr>,
                 Log ''error'' ''Error fetching data from the SMAPI API'']))"
proof (intro conjI allI impI)
  show "\<exists>data. fst (sendQuery e mods includeMeta) = Inr data"
    by (rule fst_sendQuery)
next
  assume "\<not> game_defined e \<or> (\<exists>err. getInstalledVersion e = Inl err)
        \<or> getInstalledVersion e = Inr None \<or> getInstalledVersion e = Inr (Some [])"
  then obtain err where "getGameVersion e = Inl err"
    using getGameVersion_fails_iff by blast
  then show "sendQuery e mods includeMeta
             = (Inr (Mods []), [Log ''error'' ''Error fetching data from the SMAPI API''])"
    by (simp add: sendQuery_def sendQuery_try_def)
next
  fix gv err
  assume "getGameVersion e = Inr gv
         \<and> post e api_url \<lparr> req_mods = mods, apiVersion = ''3.0'', gameVersion = gv,
                             platform = platform_of (process_platform e),
                             includeExtendedMetadata = includeMeta \<rparr> = Inl err"
  then show "sendQuery e mods includeMeta
             = (Inr (Mods []),
                [Post api_url \<lparr> req_mods = mods, apiVersion = ''3.0'', gameVersion = gv,
                                 platform = platform_of (process_platform e),
                                 includeExtendedMetadata = includeMeta \<rparr>,
                 Log ''error'' ''Error fetching data from the SMAPI API''])"
    by (simp add: sendQuery_def sendQuery_try_def)
qed

text \<open>
  The theorem at a host that does not know the game's version and at a host whose POST
  is rejected.
\<close>

theorem sendQuery_never_raises_witness:
  "getInstalledVersion versionless_env = Inr None
   \<and> sendQuery versionless_env [] (Some True)
       = (Inr (Mods []), [Log ''error'' ''Error fetching data from the SMAPI API''])
   \<and> getGameVersion offline_env = Inr ''1.5.6''
   \<and> sendQuery offline_env [] (Some True)
       = (Inr (Mods []),
          [Post api_url \<lparr> req_mods = [], apiVersion = ''3.0'', gameVersion = ''1.5.6'',
                           platform = ''Windows'', includeExtendedMetadata = Some True \<rparr>,
           Log ''error'' ''Error fetching data from the SMAPI API''])"
proof -
  have v: "getInstalledVersion versionless_env = Inr None"
    by (simp add: versionless_env_def scenario_env_def)
  have g: "getGameVersion offline_env = Inr ''1.5.6''" by code_simp
  have p: "platform_of (process_platform offline_env) = ''Windows''" by code_simp
  have r: "post offline_env api_url
             \<lparr> req_mods = [], apiVersion = ''3.0'', gameVersion = ''1.5.6'',
               platform = platform_of (process_platform offline_env),
               includeExtendedMetadata = Some True \<rparr> = Inl TransportError"
    by (simp add: offline_env_def scenario_env_def)
  from sendQuery_never_raises [of versionless_env "[]" "Some True"] v
  have 1: "sendQuery versionless_env [] (Some True)
       = (Inr (Mods []), [Log ''error'' ''Error fetching data from the SMAPI API''])"
    by blast
  from sendQuery_never_raises [of offline_env "[]" "Some True"] g r
  have 2: "sendQuery offline_env [] (Some True)
       = (Inr (Mods []),
          [Post api_url \<lparr> req_mods = [], apiVersion = ''3.0'', gameVersion = ''1.5.6'',
                           platform = platform_of (process_platform offline_env),
                           includeExtendedMetadata = Some True \<rparr>,
           Log ''error'' ''Error fetching data from the SMAPI API''])"
    by blast
  from v 1 g 2 p show ?thesis by simp
qed

subsection \<open>C7: the empty batch\<close>

text \<open>
  C7 states that the client, called with an empty batch, returns the empty sequence
  without a network call. \<open>fetchModInfo\<close> has that guard (line 72) and posts nothing
  for the installed \<open>mod-b\<close>, which has no \<open>modData\<close>. \<open>sendQuery\<close> has none: called
  with an empty batch at a host that knows the game's version, it posts the request.
  \<open>mapDependencies\<close> calls it so whenever every declaration matches an installed mod,
  as for the declaration \<open>B\<close> with \<open>mod-b\<close> installed.
\<close>

theorem sendQuery_posts_empty_batch:
  "sendQuery (scenario_env (Mods [])) [] (Some True)
     = (Inr (Mods []),
        [Post ''https://smapi.io/api/v3.0/mods''
           \<lparr> req_mods = [], apiVersion = ''3.0'', gameVersion = ''1.5.6'',
             platform = ''Windows'', includeExtendedMetadata = Some True \<rparr>])
   \<and> snd (mapDependencies lib (scenario_env (Mods [])) [(''mod-b'', mod_b)]
           [declared ''B'' (JBool True) None])
     = [Post ''https://smapi.io/api/v3.0/mods''
          \<lparr> req_mods = [], apiVersion = ''3.0'', gameVersion = ''1.5.6'',
            platform = ''Windows'', includeExtendedMetadata = Some True \<rparr>]
   \<and> fetchModInfo (scenario_env (Mods [])) True [(''mod-b'', mod_b)] = (Inr (Mods []), [])"
  by (intro conjI; code_simp)

subsection \<open>C8: the unresolved rule\<close>

text \<open>
  C8 states that a dependency matched by no installed manifest and absent from the
  catalog's answer gets an unresolved rule whose \<open>fileExpression\<close> is the declared
  identifier. For the declaration \<open>{ UniqueID: "constructor", isRequired: true }\<close>, with
  \<open>mod-b\<close> (which bundles the manifest \<open>B\<close> only) installed and an empty answer from the
  catalog, no manifest is stored under the identifier, yet
  \<open>m.attributes?.smapiManifests?.[depName]\<close> reads the inherited property of that name:
  \<open>mod-b\<close> is a candidate and the result is the local rule that refers to \<open>mod-b\<close>,
  with no unresolved rule. The declaration \<open>C\<close> gets its unresolved rule on the same
  terms, as does every declaration that matches no installed mod
  (lemma \<open>unresolved_rule_emitted\<close>).
\<close>

theorem inherited_property_matches_locally:
  "map_of [(''B'', \<lparr> Version = Some ''1.2.0'', Dependencies = None, ContentPackFor = None \<rparr>)]
       ''constructor'' = None
   \<and> stored_manifest mod_b ''constructor'' = Inherited
   \<and> fst (mapDependencies lib (scenario_env (Mods [])) [(''mod-b'', mod_b)]
           [declared ''constructor'' (JBool True) None])
     = [local_rule (declared ''constructor'' (JBool True) None) mod_b]
   \<and> rule_ref_id (local_rule (declared ''constructor'' (JBool True) None) mod_b)
     = Some ''mod-b''
   \<and> rule_fileExpression (local_rule (declared ''constructor'' (JBool True) None) mod_b)
     = None
   \<and> fst (mapDependencies lib (scenario_env (Mods [])) [(''mod-b'', mod_b)]
           [declared ''C'' (JBool True) None])
     = [unresolved_rule (declared ''C'' (JBool True) None)]"
  by (intro conjI; code_simp)

subsection \<open>C9: normalisation of a declaration\<close>

text \<open>
  C9 states that the normalised declaration carries the declared MinimumVersion whenever
  one is present. The guard of line 165 is inverted: for the declaration
  \<open>{ UniqueID: "B", MinimumVersion: "1.0.0" }\<close> the result is
  \<open>{ UniqueID: "B", isRequired: false }\<close>, with no MinimumVersion. The identifier is
  carried and \<open>isRequired\<close> defaults to false, as stated.
\<close>

theorem normaliseDependencies_drops_MinimumVersion:
  "normaliseDependencies ascii_toLowerCase
       (JObj [(''UniqueID'', JStr ''B''), (''MinimumVersion'', JStr ''1.0.0'')])
     = JObj [(''UniqueID'', JStr ''B''), (''isRequired'', JBool False)]"
  by (simp add: normaliseDependencies_def getManifestValue_def get_prop_def js_or_def
      ascii_toLowerCase_def lower_char_def)

subsection \<open>C10: the kind of a rule and extra.required\<close>

text \<open>
  C10: the rules that \<open>mapDependencies\<close> returns correspond one to one, in order, to kept
  declarations (those that match an installed mod followed by the others, or the others
  only), and the rule at a position is the one built for the declaration at that
  position. Its type is \<open>requires\<close> when that declaration's \<open>isRequired\<close> is the boolean
  true and \<open>recommends\<close> for every other value. A local rule and an unresolved rule have
  no \<open>extra\<close>; the rule of a catalog entry has \<open>extra.required\<close>, equal to
  \<open>isRequired || false\<close> of its declaration. The two disagree for the declaration
  \<open>{ UniqueID: "C", isRequired: "true" }\<close> found in the catalog: the type is
  \<open>recommends\<close> and \<open>extra.required\<close> is the truthy string.
\<close>

theorem rule_type_strict_extra_truthy:
  "(\<exists>ds. (ds = filter (\<lambda>d. local_match lib (map snd mods) d \<noteq> None)
                  (filteredDependencies dependencies)
                @ missingDependencies_of lib mods dependencies
           \<or> ds = missingDependencies_of lib mods dependencies)
        \<and> list_all2
             (\<lambda>d r. type r = Some (if isRequired d = JBool True then requires else recommends)
                   \<and> ((\<exists>m. local_match lib (map snd mods) d = Some m
                            \<and> r = local_rule d m \<and> extra r = None)
                      \<or> (r = unresolved_rule d \<and> extra r = None)
                      \<or> (\<exists>s smapiData.
                            smapiData_of lib e mods dependencies = Inr smapiData
                          \<and> find_in_response (toLowerCase e) smapiData (depName_of d)
                              = Inr (Some s)
                          \<and> r = remote_rule s d
                          \<and> extra r = Some (if truthy (isRequired d) then isRequired d
                                             else JBool False))))
             ds (fst (mapDependencies lib e mods dependencies)))
   \<and> (\<exists>s d. remote_rule s d \<in>
               set (fst (mapDependencies permissive_semver (scenario_env (Mods [s])) [] [d]))
             \<and> isRequired d = JStr ''true''
             \<and> type (remote_rule s d) = Some recommends
             \<and> extra (remote_rule s d) = Some (JStr ''true'')
             \<and> truthy (JStr ''true''))"
proof (intro conjI)
  from mapDependencies_rules [of lib mods dependencies e] obtain ds where
    ds: "ds = filter (\<lambda>d. local_match lib (map snd mods) d \<noteq> None)
                (filteredDependencies dependencies)
              @ missingDependencies_of lib mods dependencies
         \<or> ds = missingDependencies_of lib mods dependencies"
    and l: "list_all2
           (\<lambda>d r. (\<exists>m. local_match lib (map snd mods) d = Some m \<and> r = local_rule d m)
                 \<or> local_match lib (map snd mods) d = None \<and> r = unresolved_rule d
                 \<or> local_match lib (map snd mods) d = None
                    \<and> (\<exists>s smapiData.
                          smapiData_of lib e mods dependencies = Inr smapiData
                        \<and> find_in_response (toLowerCase e) smapiData (depName_of d)
                            = Inr (Some s)
                        \<and> r = remote_rule s d))
           ds (fst (mapDependencies lib e mods dependencies))"
    by blast
  have l': "list_all2
          (\<lambda>d r. type r = Some (if isRequired d = JBool True then requires else recommends)
                \<and> ((\<exists>m. local_match lib (map snd mods) d = Some m
                         \<and> r = local_rule d m \<and> extra r = None)
                   \<or> (r = unresolved_rule d \<and> extra r = None)
                   \<or> (\<exists>s smapiData.
                         smapiData_of lib e mods dependencies = Inr smapiData
                       \<and> find_in_response (toLowerCase e) smapiData (depName_of d)
                           = Inr (Some s)
                       \<and> r = remote_rule s d
                       \<and> extra r = Some (if truthy (isRequired d) then isRequired d
                                          else JBool False))))
          ds (fst (mapDependencies lib e mods dependencies))"
    by (rule list_all2_mono [OF l]) (auto simp: rule_fields rule_kind_def js_or_def)
  show "\<exists>ds. (ds = filter (\<lambda>d. local_match lib (map snd mods) d \<noteq> None)
                  (filteredDependencies dependencies)
                @ missingDependencies_of lib mods dependencies
           \<or> ds = missingDependencies_of lib mods dependencies)
        \<and> list_all2
             (\<lambda>d r. type r = Some (if isRequired d = JBool True then requires else recommends)
                   \<and> ((\<exists>m. local_match lib (map snd mods) d = Some m
                            \<and> r = local_rule d m \<and> extra r = None)
                      \<or> (r = unresolved_rule d \<and> extra r = None)
                      \<or> (\<exists>s smapiData.
                            smapiData_of lib e mods dependencies = Inr smapiData
                          \<and> find_in_response (toLowerCase e) smapiData (depName_of d)
                              = Inr (Some s)
                          \<and> r = remote_rule s d
                          \<and> extra r = Some (if truthy (isRequired d) then isRequired d
                                             else JBool False))))
             ds (fst (mapDependencies lib e mods dependencies))"
    by (rule exI [of _ ds]) (rule conjI [OF ds l'])
next
  let ?s = "\<lparr> entry_id = Some ''c'', metadata_name = None, metadata_main_url = None \<rparr>"
  let ?d = "declared ''C'' (JStr ''true'') None"
  have "remote_rule ?s ?d \<in>
          set (fst (mapDependencies permissive_semver (scenario_env (Mods [?s])) [] [?d]))"
    by code_simp
  moreover have "isRequired ?d = JStr ''true''" by (simp add: declared_def)
  moreover have "type (remote_rule ?s ?d) = Some recommends"
    by (simp add: remote_rule_def rule_kind_def declared_def)
  moreover have "extra (remote_rule ?s ?d) = Some (JStr ''true'')"
    by (simp add: remote_rule_def js_or_def declared_def)
  ultimately show "\<exists>s d. remote_rule s d \<in>
               set (fst (mapDependencies permissive_semver (scenario_env (Mods [s])) [] [d]))
             \<and> isRequired d = JStr ''true''
             \<and> type (remote_rule s d) = Some recommends
             \<and> extra (remote_rule s d) = Some (JStr ''true'')
             \<and> truthy (JStr ''true'')"
    by (intro exI [of _ ?s] exI [of _ ?d]) simp
qed

end
